theory Spec2Isabelle
  imports Complex_Main "HOL-Library.Multiset" "HOL-Library.List_Lexorder" "HOL-Library.Char_ord"
begin

section \<open>JavaScript values\<close>

text \<open>
  A JavaScript Number is \<open>NaN\<close>, an infinity or a finite value. Finite values are
  idealised as reals (rounding to doubles and the sign of zero are left out).
\<close>

datatype jsnum = NaN | Fin real | PosInf | NegInf

text \<open>
  The values that occur in a CSV row, in the object built from it and in a stored
  document. \<open>undefined\<close> (also a missing property) is \<open>None\<close> of \<open>jsval option\<close>.
\<close>

datatype jsval = Str string | Num jsnum | Bool bool | Arr "string list"

type_synonym jsobj = "string \<rightharpoonup> jsval"

text \<open>Truthiness, as used by \<open>||\<close>, \<open>?:\<close> and \<open>if\<close>.\<close>

fun truthyNum :: "jsnum \<Rightarrow> bool" where
  "truthyNum NaN = False"
| "truthyNum (Fin r) = (r \<noteq> 0)"
| "truthyNum PosInf = True"
| "truthyNum NegInf = True"

fun truthy :: "jsval option \<Rightarrow> bool" where
  "truthy None = False"
| "truthy (Some (Str s)) = (s \<noteq> [])"
| "truthy (Some (Num n)) = truthyNum n"
| "truthy (Some (Bool b)) = b"
| "truthy (Some (Arr xs)) = True"

text \<open>\<open>a || b\<close>: the left operand when it is truthy, else the right one.\<close>

definition orElse :: "jsval option \<Rightarrow> jsval option \<Rightarrow> jsval option" where
  "orElse a b = (if truthy a then a else b)"

text \<open>\<open>a <= b\<close> on Numbers: false as soon as one side is \<open>NaN\<close>.\<close>

fun jsLe :: "jsnum \<Rightarrow> jsnum \<Rightarrow> bool" where
  "jsLe NaN _ = False"
| "jsLe _ NaN = False"
| "jsLe NegInf _ = True"
| "jsLe _ PosInf = True"
| "jsLe (Fin a) (Fin b) = (a \<le> b)"
| "jsLe (Fin a) NegInf = False"
| "jsLe PosInf (Fin b) = False"
| "jsLe PosInf NegInf = False"

subsection \<open>Strings\<close>

definition isWhiteSpace :: "char \<Rightarrow> bool" where
  "isWhiteSpace c = (c \<in> set [CHR 0x09, CHR 0x0A, CHR 0x0B, CHR 0x0C, CHR 0x0D, CHR 0x20])"

definition isDigit :: "char \<Rightarrow> bool" where
  "isDigit c = (c \<in> set ''0123456789'')"

definition isHexDigit :: "char \<Rightarrow> bool" where
  "isHexDigit c = (c \<in> set ''0123456789abcdefABCDEF'')"

definition digitValue :: "char \<Rightarrow> nat" where
  "digitValue c =
     (if isDigit c then of_char c - 48
      else if c \<in> set ''abcdef'' then of_char c - 87
      else of_char c - 55)"

definition digitsValue :: "nat \<Rightarrow> string \<Rightarrow> nat" where
  "digitsValue radix ds = foldl (\<lambda>a c. radix * a + digitValue c) 0 ds"

text \<open>\<open>String.prototype.trim\<close>.\<close>

definition trim :: "string \<Rightarrow> string" where
  "trim s = rev (dropWhile isWhiteSpace (rev (dropWhile isWhiteSpace s)))"

text \<open>\<open>s.split(c)\<close> for a one-character separator: never the empty list.\<close>

fun split :: "char \<Rightarrow> string \<Rightarrow> string list" where
  "split c [] = [[]]"
| "split c (x # xs) =
     (if x = c then [] # split c xs
      else (case split c xs of [] \<Rightarrow> [[x]] | w # ws \<Rightarrow> (x # w) # ws))"

text \<open>\<open>xs.join(sep)\<close>.\<close>

fun join :: "string \<Rightarrow> string list \<Rightarrow> string" where
  "join sep [] = []"
| "join sep [x] = x"
| "join sep (x # y # ys) = x @ sep @ join sep (y # ys)"

subsection \<open>\<open>parseInt\<close> and \<open>parseFloat\<close>\<close>

text \<open>
  \<open>parseInt(s)\<close> without a radix: leading white space is skipped, a sign is read,
  a \<open>0x\<close> prefix selects radix 16, and the longest run of digits is the value; no digit
  at all gives \<open>NaN\<close>.
\<close>

definition parseInt :: "string \<Rightarrow> jsnum" where
  "parseInt s =
     (let t = dropWhile isWhiteSpace s;
          neg = (take 1 t = ''-'');
          u = (if take 1 t = ''+'' \<or> take 1 t = ''-'' then drop 1 t else t);
          hex = (take 2 u = ''0x'' \<or> take 2 u = ''0X'');
          z = (if hex then takeWhile isHexDigit (drop 2 u) else takeWhile isDigit u);
          v = real (digitsValue (if hex then 16 else 10) z)
      in if z = [] then NaN else Fin (if neg then - v else v))"

text \<open>
  \<open>parseFloat(s)\<close>: leading white space is skipped and the longest prefix that is a
  decimal literal is the value: a sign, then \<open>Infinity\<close> or digits with an optional
  fraction and an optional exponent (an exponent without digits is not read).
\<close>

definition parseExponent :: "string \<Rightarrow> int" where
  "parseExponent r =
     (if take 1 r = ''e'' \<or> take 1 r = ''E'' then
        (let r1 = drop 1 r;
             eneg = (take 1 r1 = ''-'');
             r2 = (if take 1 r1 = ''+'' \<or> take 1 r1 = ''-'' then drop 1 r1 else r1);
             ed = takeWhile isDigit r2
         in if ed = [] then 0
            else if eneg then - int (digitsValue 10 ed) else int (digitsValue 10 ed))
      else 0)"

definition scale10 :: "real \<Rightarrow> int \<Rightarrow> real" where
  "scale10 x e = (if 0 \<le> e then x * 10 ^ nat e else x / 10 ^ nat (- e))"

definition parseFloat :: "string \<Rightarrow> jsnum" where
  "parseFloat s =
     (let t = dropWhile isWhiteSpace s;
          neg = (take 1 t = ''-'');
          u = (if take 1 t = ''+'' \<or> take 1 t = ''-'' then drop 1 t else t)
      in if take 8 u = ''Infinity'' then (if neg then NegInf else PosInf)
         else
           (let ip = takeWhile isDigit u;
                r1 = dropWhile isDigit u;
                fp = (if take 1 r1 = ''.'' then takeWhile isDigit (drop 1 r1) else []);
                r2 = (if take 1 r1 = ''.'' then dropWhile isDigit (drop 1 r1) else r1);
                m = real (digitsValue 10 ip) + real (digitsValue 10 fp) / 10 ^ length fp;
                v = scale10 m (parseExponent r2)
            in if ip = [] \<and> fp = [] then NaN else Fin (if neg then - v else v)))"

text \<open>Both functions applied to a property that may be \<open>undefined\<close>: \<open>NaN\<close> then.\<close>

fun parseIntOf :: "jsval option \<Rightarrow> jsnum" where
  "parseIntOf (Some (Str s)) = parseInt s"
| "parseIntOf (Some (Num n)) = (case n of Fin r \<Rightarrow> Fin (real_of_int (if 0 \<le> r then \<lfloor>r\<rfloor> else \<lceil>r\<rceil>)) | _ \<Rightarrow> NaN)"
| "parseIntOf _ = NaN"

fun parseFloatOf :: "jsval option \<Rightarrow> jsnum" where
  "parseFloatOf (Some (Str s)) = parseFloat s"
| "parseFloatOf (Some (Num n)) = n"
| "parseFloatOf _ = NaN"

section \<open>The mock recommendation generator\<close>

record mockCourse =
  mc_id :: string
  mc_title :: string
  mc_university :: string
  mc_level :: string
  mc_duration :: string
  mc_tuition :: real
  mc_matchScore :: real
  mc_reasoning :: string

record preferences =
  topics :: "string list"
  skillLevel :: "string option"
  duration :: "string option"
  maxTuition :: "real option"

definition mockCourses :: "mockCourse list" where
  "mockCourses =
    [\<lparr>mc_id = ''ai_ml_001'', mc_title = ''Advanced Machine Learning'',
      mc_university = ''Stanford University'', mc_level = ''Postgraduate'',
      mc_duration = ''12 months'', mc_tuition = 45000, mc_matchScore = 95,
      mc_reasoning = ''Perfect for AI/ML enthusiasts with strong mathematical background''\<rparr>,
     \<lparr>mc_id = ''data_science_001'', mc_title = ''Data Science and Analytics'',
      mc_university = ''MIT'', mc_level = ''Postgraduate'',
      mc_duration = ''18 months'', mc_tuition = 52000, mc_matchScore = 92,
      mc_reasoning = ''Comprehensive program covering data analysis and visualization''\<rparr>,
     \<lparr>mc_id = ''web_dev_001'', mc_title = ''Full-Stack Web Development'',
      mc_university = ''UC Berkeley'', mc_level = ''Undergraduate'',
      mc_duration = ''24 months'', mc_tuition = 38000, mc_matchScore = 88,
      mc_reasoning = ''Hands-on program with modern web technologies''\<rparr>,
     \<lparr>mc_id = ''cybersecurity_001'', mc_title = ''Cybersecurity and Network Security'',
      mc_university = ''Carnegie Mellon University'', mc_level = ''Postgraduate'',
      mc_duration = ''16 months'', mc_tuition = 48000, mc_matchScore = 85,
      mc_reasoning = ''Specialized program for security professionals''\<rparr>,
     \<lparr>mc_id = ''business_tech_001'', mc_title = ''Business Technology Management'',
      mc_university = ''Harvard University'', mc_level = ''Postgraduate'',
      mc_duration = ''20 months'', mc_tuition = 55000, mc_matchScore = 82,
      mc_reasoning = ''Combines business strategy with technology implementation''\<rparr>]"

text \<open>\<open>durationMap[duration]\<close>, for the three keys the request schema allows.\<close>

definition durationMap :: "string \<Rightarrow> real option" where
  "durationMap d =
     (if d = ''short'' then Some 12
      else if d = ''medium'' then Some 18
      else if d = ''long'' then Some 24
      else None)"

text \<open>
  \<open>generateMockRecommendations(preferences)\<close>: the tuition filter runs when
  \<open>maxTuition\<close> is truthy (so not for 0), the duration filter when the duration has an
  entry in the map; the sort is the stable descending sort on the match score.
\<close>

definition filterByTuition :: "real option \<Rightarrow> mockCourse list \<Rightarrow> mockCourse list" where
  "filterByTuition mt cs =
     (case mt of
        None \<Rightarrow> cs
      | Some m \<Rightarrow> if m \<noteq> 0 then filter (\<lambda>c. mc_tuition c \<le> m) cs else cs)"

definition filterByDuration :: "string option \<Rightarrow> mockCourse list \<Rightarrow> mockCourse list" where
  "filterByDuration du cs =
     (case du of
        None \<Rightarrow> cs
      | Some d \<Rightarrow>
          (if d = [] then cs
           else (case durationMap d of
                   None \<Rightarrow> cs
                 | Some maxDuration \<Rightarrow>
                     filter (\<lambda>c. jsLe (parseInt (mc_duration c)) (Fin maxDuration)) cs)))"

definition generateMockRecommendations :: "preferences \<Rightarrow> mockCourse list" where
  "generateMockRecommendations p =
     take 5 (sort_key (\<lambda>c. - mc_matchScore c)
       (filterByDuration (duration p) (filterByTuition (maxTuition p) mockCourses)))"

text \<open>
  \<open>generateRecommendations(preferences)\<close>: the mock list and the reasoning sentence,
  which is the only place where the topics and the skill level are read.
\<close>

record aiResponse =
  success :: bool
  recommendations :: "mockCourse list"
  reasoning :: string

definition generateRecommendations :: "preferences \<Rightarrow> aiResponse" where
  "generateRecommendations p =
     \<lparr>success = True,
      recommendations = generateMockRecommendations p,
      reasoning = ''Based on your interest in '' @ join '', '' (topics p)
        @ '', I'' @ [CHR 0x27] @ ''ve recommended courses that align with your ''
        @ (case skillLevel p of None \<Rightarrow> ''intermediate'' | Some l \<Rightarrow> l)
        @ '' skill level and preferences.''\<rparr>"

section \<open>Course documents and the popular-courses pipeline\<close>

text \<open>
  A stored course is a document: a finite map from field names to values. An object
  literal is written as the list of its properties; a property whose value is
  \<open>undefined\<close> is absent from the object.
\<close>

definition obj :: "(string \<times> jsval option) list \<Rightarrow> jsobj" where
  "obj kvs = (\<lambda>k. case map_of kvs k of None \<Rightarrow> None | Some v \<Rightarrow> v)"







definition courseA :: jsobj where
  "courseA = obj [(''uniqueId'', Some (Str ''A'')),
                  (''ftRanking2024'', Some (Num (Fin 100))),
                  (''acceptanceRate'', Some (Num (Fin 50))),
                  (''partnerCourse'', Some (Bool True))]"




section \<open>CSV ingestion\<close>

subsection \<open>From a CSV row to the course object\<close>

text \<open>
  A parsed CSV row: every column of the header maps to the raw string of the cell.
\<close>

type_synonym csvRow = "string \<rightharpoonup> string"

definition col :: "csvRow \<Rightarrow> string \<Rightarrow> jsval option" where
  "col row k = map_option Str (row k)"

text \<open>A natural number in a template literal: its decimal digits.\<close>

fun showNat :: "nat \<Rightarrow> string" where
  "showNat n = (if n < 10 then [''0123456789'' ! n]
                else showNat (n div 10) @ [''0123456789'' ! (n mod 10)])"

declare showNat.simps [simp del]

text \<open>\<open>a || b\<close> on Numbers.\<close>

definition numOr :: "jsnum \<Rightarrow> jsnum \<Rightarrow> jsnum" where
  "numOr a b = (if truthyNum a then a else b)"

text \<open>\<open>v ? v.split(c).map(x => x.trim()) : []\<close>.\<close>

definition splitTrim :: "char \<Rightarrow> jsval option \<Rightarrow> jsval option" where
  "splitTrim c v =
     (case v of
        Some (Str s) \<Rightarrow> if s \<noteq> [] then Some (Arr (map trim (split c s))) else Some (Arr [])
      | _ \<Rightarrow> Some (Arr []))"

text \<open>\<open>v ? parseFloat(v) : undefined\<close> and \<open>v ? parseInt(v) : undefined\<close>.\<close>

definition optFloat :: "jsval option \<Rightarrow> jsval option" where
  "optFloat v = (if truthy v then Some (Num (parseFloatOf v)) else None)"

definition optInt :: "jsval option \<Rightarrow> jsval option" where
  "optInt v = (if truthy v then Some (Num (parseIntOf v)) else None)"

text \<open>\<open>v === 'true'\<close>.\<close>

definition isTrue :: "jsval option \<Rightarrow> jsval option" where
  "isTrue v = Some (Bool (v = Some (Str ''true'')))"

text \<open>
  The object \<open>courseData\<close> built for a row; \<open>now\<close> is the value of \<open>Date.now()\<close> when
  the row is transformed and \<open>n\<close> the value of \<open>processedCount\<close>.
\<close>

definition transformRow :: "nat \<Rightarrow> nat \<Rightarrow> csvRow \<Rightarrow> jsobj" where
  "transformRow now n row =
     obj [
       (''uniqueId'', orElse (orElse (col row ''uniqueId'') (col row ''course_id''))
                        (Some (Str (''course_'' @ showNat now @ ''_'' @ showNat n)))),
       (''courseName'', orElse (orElse (col row ''courseName'') (col row ''title'')) (col row ''name'')),
       (''courseCode'', orElse (col row ''courseCode'') (col row ''code'')),
       (''universityCode'', orElse (col row ''universityCode'') (col row ''university_code'')),
       (''universityName'', orElse (col row ''universityName'') (col row ''university_name'')),
       (''departmentSchool'', orElse (orElse (col row ''departmentSchool'') (col row ''department''))
                                (col row ''school'')),
       (''disciplineMajor'', orElse (orElse (col row ''disciplineMajor'') (col row ''discipline''))
                               (col row ''major'')),
       (''specialization'', col row ''specialization''),
       (''courseLevel'', orElse (orElse (col row ''courseLevel'') (col row ''level''))
                           (Some (Str ''Undergraduate''))),
       (''overviewDescription'', orElse (col row ''overviewDescription'') (col row ''description'')),
       (''summary'', orElse (orElse (col row ''summary'') (col row ''overviewDescription''))
                       (col row ''description'')),
       (''prerequisites'', splitTrim (CHR '';'') (col row ''prerequisites'')),
       (''learningOutcomes'', splitTrim (CHR '';'') (col row ''learningOutcomes'')),
       (''teachingMethodology'', orElse (orElse (col row ''teachingMethodology'') (col row ''methodology''))
                                   (Some (Str ''Not specified''))),
       (''assessmentMethods'', splitTrim (CHR '';'') (col row ''assessmentMethods'')),
       (''credits'', Some (Num (numOr (parseIntOf (col row ''credits'')) (Fin 0)))),
       (''durationMonths'', Some (Num (numOr (numOr (parseIntOf (col row ''durationMonths''))
                                                  (parseIntOf (col row ''duration''))) (Fin 12)))),
       (''languageOfInstruction'', orElse (orElse (col row ''languageOfInstruction'') (col row ''language''))
                                     (Some (Str ''English''))),
       (''syllabusUrl'', orElse (col row ''syllabusUrl'') (col row ''syllabus_url'')),
       (''keywords'', splitTrim (CHR '','') (col row ''keywords'')),
       (''professorName'', orElse (col row ''professorName'') (col row ''instructor'')),
       (''professorEmail'', orElse (col row ''professorEmail'') (col row ''instructor_email'')),
       (''officeLocation'', col row ''officeLocation''),
       (''openForIntake'', col row ''openForIntake''),
       (''admissionOpenYears'', orElse (col row ''admissionOpenYears'') (Some (Str ''2024''))),
       (''attendanceType'', orElse (orElse (col row ''attendanceType'') (col row ''attendance''))
                              (Some (Str ''Full-time''))),
       (''firstYearTuitionFee'', Some (Num (numOr (numOr (parseFloatOf (col row ''firstYearTuitionFee''))
                                                       (parseFloatOf (col row ''tuition''))) (Fin 0)))),
       (''totalTuitionFee'', Some (Num (numOr (numOr (parseFloatOf (col row ''totalTuitionFee''))
                                                   (parseFloatOf (col row ''tuition''))) (Fin 0)))),
       (''tuitionFeeCurrency'', orElse (orElse (col row ''tuitionFeeCurrency'') (col row ''currency''))
                                  (Some (Str ''USD''))),
       (''applicationFeeAmount'', Some (Num (numOr (parseFloatOf (col row ''applicationFeeAmount'')) (Fin 0)))),
       (''applicationFeeCurrency'', orElse (col row ''applicationFeeCurrency'') (Some (Str ''USD''))),
       (''applicationFeeWaived'', isTrue (col row ''applicationFeeWaived'')),
       (''requiredApplicationMaterials'', orElse (col row ''requiredApplicationMaterials'')
                                            (Some (Str ''Standard application materials''))),
       (''twelfthGradeRequirement'', col row ''twelfthGradeRequirement''),
       (''undergraduateDegreeRequirement'', col row ''undergraduateDegreeRequirement''),
       (''minimumIELTSScore'', optFloat (col row ''minimumIELTSScore'')),
       (''minimumTOEFLScore'', optFloat (col row ''minimumTOEFLScore'')),
       (''minimumPTEScore'', optFloat (col row ''minimumPTEScore'')),
       (''minimumDuolingoScore'', optFloat (col row ''minimumDuolingoScore'')),
       (''minimumCambridgeEnglishScore'', col row ''minimumCambridgeEnglishScore''),
       (''otherEnglishTestsAccepted'', col row ''otherEnglishTestsAccepted''),
       (''greRequired'', isTrue (col row ''greRequired'')),
       (''greScore'', col row ''greScore''),
       (''gmatRequired'', isTrue (col row ''gmatRequired'')),
       (''gmatScore'', col row ''gmatScore''),
       (''satRequired'', isTrue (col row ''satRequired'')),
       (''satScore'', col row ''satScore''),
       (''actRequired'', isTrue (col row ''actRequired'')),
       (''actScore'', col row ''actScore''),
       (''waiverOptions'', col row ''waiverOptions''),
       (''partnerCourse'', isTrue (col row ''partnerCourse'')),
       (''ftRanking2024'', optInt (col row ''ftRanking2024'')),
       (''acceptanceRate'', optFloat (col row ''acceptanceRate'')),
       (''domesticApplicationDeadline'', orElse (col row ''domesticApplicationDeadline'')
                                           (Some (Str ''2024-12-31''))),
       (''internationalApplicationDeadline'', orElse (col row ''internationalApplicationDeadline'')
                                                (Some (Str ''2024-12-31''))),
       (''courseUrl'', orElse (orElse (col row ''courseUrl'') (col row ''url'')) (Some (Str ''#'')))
     ]"

subsection \<open>The course schema\<close>

text \<open>
  The validators of the course schema: the paths declared \<open>required\<close>, the two \<open>enum\<close>
  paths and the paths of type Number. A required String must be a non-empty string; a
  Number path does not accept \<open>NaN\<close>.
\<close>

definition requiredStrings :: "string list" where
  "requiredStrings =
     [''uniqueId'', ''courseName'', ''courseCode'', ''universityCode'', ''universityName'',
      ''departmentSchool'', ''disciplineMajor'', ''courseLevel'', ''overviewDescription'',
      ''summary'', ''teachingMethodology'', ''languageOfInstruction'', ''admissionOpenYears'',
      ''attendanceType'', ''tuitionFeeCurrency'', ''applicationFeeCurrency'',
      ''requiredApplicationMaterials'', ''domesticApplicationDeadline'',
      ''internationalApplicationDeadline'', ''courseUrl'']"

definition requiredNumbers :: "string list" where
  "requiredNumbers =
     [''credits'', ''durationMonths'', ''firstYearTuitionFee'', ''totalTuitionFee'',
      ''applicationFeeAmount'']"

definition optionalNumbers :: "string list" where
  "optionalNumbers =
     [''minimumIELTSScore'', ''minimumTOEFLScore'', ''minimumPTEScore'', ''minimumDuolingoScore'',
      ''ftRanking2024'', ''acceptanceRate'']"

definition courseLevels :: "string list" where
  "courseLevels = [''Undergraduate'', ''Postgraduate'', ''Doctorate'', ''Diploma'', ''Certificate'']"

definition attendanceTypes :: "string list" where
  "attendanceTypes = [''Full-time'', ''Part-time'', ''Online'']"

fun stringOk :: "jsval option \<Rightarrow> bool" where
  "stringOk (Some (Str s)) = (s \<noteq> [])"
| "stringOk _ = False"

fun numberOk :: "jsval option \<Rightarrow> bool" where
  "numberOk (Some (Num n)) = (n \<noteq> NaN)"
| "numberOk _ = False"

fun enumOk :: "string list \<Rightarrow> jsval option \<Rightarrow> bool" where
  "enumOk vs (Some (Str s)) = (s \<in> set vs)"
| "enumOk vs None = True"
| "enumOk vs _ = False"

text \<open>The paths of a document that fail validation; the document is valid when there is none.\<close>

definition validateCourse :: "jsobj \<Rightarrow> string list" where
  "validateCourse d =
     filter (\<lambda>p. \<not> stringOk (d p)) requiredStrings
     @ filter (\<lambda>p. \<not> numberOk (d p)) requiredNumbers
     @ filter (\<lambda>p. d p \<noteq> None \<and> \<not> numberOk (d p)) optionalNumbers
     @ filter (\<lambda>p. \<not> enumOk courseLevels (d p)) [''courseLevel'']
     @ filter (\<lambda>p. \<not> enumOk attendanceTypes (d p)) [''attendanceType'']"

subsection \<open>The course collection\<close>

text \<open>
  The collection is the list of its documents, in insertion order. \<open>findOne\<close> gives the
  first document with the unique id; \<open>findOneAndUpdate\<close> with \<open>runValidators\<close> validates
  the update and sets its properties on that document; \<open>save\<close> validates the new
  document and appends it. A failed validation is the error the call throws: the list of
  the failing paths.
\<close>

definition findOne :: "jsobj list \<Rightarrow> jsval option \<Rightarrow> jsobj option" where
  "findOne db uid = find (\<lambda>d. d ''uniqueId'' = uid) db"

fun updateFirst :: "(jsobj \<Rightarrow> bool) \<Rightarrow> (jsobj \<Rightarrow> jsobj) \<Rightarrow> jsobj list \<Rightarrow> jsobj list" where
  "updateFirst P f [] = []"
| "updateFirst P f (d # ds) = (if P d then f d # ds else d # updateFirst P f ds)"

definition findOneAndUpdate :: "jsobj list \<Rightarrow> jsval option \<Rightarrow> jsobj \<Rightarrow> string list + jsobj list" where
  "findOneAndUpdate db uid upd =
     (if validateCourse upd = []
      then Inr (updateFirst (\<lambda>d. d ''uniqueId'' = uid) (\<lambda>d. d ++ upd) db)
      else Inl (validateCourse upd))"

definition save :: "jsobj list \<Rightarrow> jsobj \<Rightarrow> string list + jsobj list" where
  "save db d = (if validateCourse d = [] then Inr (db @ [d]) else Inl (validateCourse d))"

text \<open>The body of the inner \<open>try\<close>, after the transformation: update or create.\<close>

definition upsertCourse :: "jsobj list \<Rightarrow> jsobj \<Rightarrow> string list + jsobj list" where
  "upsertCourse db courseData =
     (case findOne db (courseData ''uniqueId'') of
        Some existingCourse \<Rightarrow> findOneAndUpdate db (courseData ''uniqueId'') courseData
      | None \<Rightarrow> save db courseData)"

subsection \<open>The row loop\<close>

record rowError =
  re_row :: nat
  re_error :: "string list"
  re_data :: csvRow

record uploadState =
  collection :: "jsobj list"
  processedCount :: nat
  successCount :: nat
  errors :: "rowError list"

text \<open>
  One iteration of the loop. \<open>clock n\<close> is the value of \<open>Date.now()\<close> while row \<open>n\<close> is
  transformed. The \<open>catch\<close> records the row number, the error and the raw row.
\<close>

definition processRow :: "(nat \<Rightarrow> nat) \<Rightarrow> uploadState \<Rightarrow> csvRow \<Rightarrow> uploadState" where
  "processRow clock st row =
     (let n = processedCount st + 1;
          courseData = transformRow (clock n) n row
      in case upsertCourse (collection st) courseData of
           Inr db' \<Rightarrow> st\<lparr>collection := db', processedCount := n, successCount := successCount st + 1\<rparr>
         | Inl e \<Rightarrow> st\<lparr>processedCount := n,
                        errors := errors st @ [\<lparr>re_row = n, re_error = e, re_data = row\<rparr>]\<rparr>)"

definition processRows :: "(nat \<Rightarrow> nat) \<Rightarrow> uploadState \<Rightarrow> csvRow list \<Rightarrow> uploadState" where
  "processRows clock st rows = foldl (processRow clock) st rows"

definition uploadLoop :: "(nat \<Rightarrow> nat) \<Rightarrow> jsobj list \<Rightarrow> csvRow list \<Rightarrow> uploadState" where
  "uploadLoop clock db0 rows =
     processRows clock \<lparr>collection = db0, processedCount = 0, successCount = 0, errors = []\<rparr> rows"

text \<open>The body of the response sent after the loop.\<close>

record uploadSummary =
  totalProcessed :: nat
  successful :: nat
  errorCount :: nat

record uploadBody =
  summary :: uploadSummary
  errorList :: "rowError list"

definition uploadBodyOf :: "uploadState \<Rightarrow> uploadBody" where
  "uploadBodyOf st =
     \<lparr>summary = \<lparr>totalProcessed = processedCount st, successful = successCount st,
                 errorCount = length (errors st)\<rparr>,
      errorList = take 10 (errors st)\<rparr>"

subsection \<open>Notions used to state the properties of the loop\<close>

text \<open>What a successful upsert does to the collection: the update or the insertion.\<close>

definition storeCourse :: "jsobj list \<Rightarrow> jsobj \<Rightarrow> jsobj list" where
  "storeCourse db d =
     (case findOne db (d ''uniqueId'') of
        Some existingCourse \<Rightarrow> updateFirst (\<lambda>x. x ''uniqueId'' = d ''uniqueId'') (\<lambda>x. x ++ d) db
      | None \<Rightarrow> db @ [d])"

text \<open>A row with its number: the object built from it, whether it passes, the entry it leaves otherwise.\<close>

definition rowData :: "(nat \<Rightarrow> nat) \<Rightarrow> nat \<times> csvRow \<Rightarrow> jsobj" where
  "rowData clock nr = transformRow (clock (fst nr)) (fst nr) (snd nr)"

definition rowValid :: "(nat \<Rightarrow> nat) \<Rightarrow> nat \<times> csvRow \<Rightarrow> bool" where
  "rowValid clock nr = (validateCourse (rowData clock nr) = [])"

definition rowErrorOf :: "(nat \<Rightarrow> nat) \<Rightarrow> nat \<times> csvRow \<Rightarrow> rowError" where
  "rowErrorOf clock nr =
     \<lparr>re_row = fst nr, re_error = validateCourse (rowData clock nr), re_data = snd nr\<rparr>"





text \<open>Sample rows: nine columns, enough for a valid course when the name is not empty.\<close>

definition sampleRow :: "string \<Rightarrow> string \<Rightarrow> csvRow" where
  "sampleRow uid name =
     map_of [(''uniqueId'', uid), (''courseName'', name), (''courseCode'', ''C-101''),
             (''universityCode'', ''U1''), (''universityName'', ''First University''),
             (''departmentSchool'', ''Science''), (''disciplineMajor'', ''Mathematics''),
             (''overviewDescription'', ''An introduction''), (''credits'', ''6'')]"

definition fiveRows :: "csvRow list" where
  "fiveRows = [sampleRow ''C1'' ''Algebra'', sampleRow ''C2'' ''Biology'', sampleRow ''C3'' [],
               sampleRow ''C4'' ''Chemistry'', sampleRow ''C5'' ''Drama'']"


definition clockA :: "nat \<Rightarrow> nat" where
  "clockA n = 1000"




section \<open>Recommendations: the courses matching the topics\<close>












section \<open>The cache client\<close>

text \<open>
  A key of the cache is a prefix and the JSON text of a parameter object. The text is
  kept as the list of the property values it serialises (\<open>undefined\<close> properties are
  left out by \<open>JSON.stringify\<close>, strings and numbers are written differently), so two
  keys are equal exactly when the parameter objects serialise to the same text.
\<close>

datatype cacheKey = CoursesKey "jsval option list" | RecommendationsKey "jsval option list" | FixedKey string

text \<open>
  The client: the connection flag and the entries of the store, each with the time (in
  seconds) at which it expires. A stored value stands for its JSON text: what \<open>get\<close>
  parses is what \<open>set\<close> serialised, and the response is serialised the same way.
\<close>

record 'v redisClient =
  isConnected :: bool
  store :: "cacheKey \<rightharpoonup> nat \<times> 'v"

text \<open>
  \<open>set\<close>, \<open>get\<close> and the wrappers for the course listing. Without a connection
  \<open>set\<close> stores nothing and \<open>get\<close> finds nothing. \<open>now\<close> is the time of the call.
\<close>

definition redisSet :: "'v redisClient \<Rightarrow> nat \<Rightarrow> cacheKey \<Rightarrow> 'v \<Rightarrow> nat \<Rightarrow> bool \<times> 'v redisClient" where
  "redisSet c now key v expirySeconds =
     (if \<not> isConnected c then (False, c)
      else (True, c\<lparr>store := (store c)(key \<mapsto> (now + expirySeconds, v))\<rparr>))"

definition redisGet :: "'v redisClient \<Rightarrow> nat \<Rightarrow> cacheKey \<Rightarrow> 'v option" where
  "redisGet c now key =
     (if \<not> isConnected c then None
      else (case store c key of
              None \<Rightarrow> None
            | Some (expires, v) \<Rightarrow> if now < expires then Some v else None))"

definition getCachedCourses :: "'v redisClient \<Rightarrow> nat \<Rightarrow> jsval option list \<Rightarrow> 'v option" where
  "getCachedCourses c now cacheKey = redisGet c now (CoursesKey cacheKey)"

definition setCachedCourses :: "'v redisClient \<Rightarrow> nat \<Rightarrow> jsval option list \<Rightarrow> 'v \<Rightarrow> bool \<times> 'v redisClient" where
  "setCachedCourses c now cacheKey v = redisSet c now (CoursesKey cacheKey) v 1800"

text \<open>\<open>invalidateCourseCache\<close>: every key matching \<open>courses:*\<close> is deleted.\<close>

fun isCoursesKey :: "cacheKey \<Rightarrow> bool" where
  "isCoursesKey (CoursesKey k) = True"
| "isCoursesKey _ = False"

definition invalidateCourseCache :: "'v redisClient \<Rightarrow> bool \<times> 'v redisClient" where
  "invalidateCourseCache c =
     (if \<not> isConnected c then (False, c)
      else (True, c\<lparr>store := (\<lambda>k. if isCoursesKey k then None else store c k)\<rparr>))"

section \<open>The course listing\<close>


text \<open>
  \<open>req.query\<close>: each parameter is a string or is absent. \<open>limit\<close> and \<open>page\<close> default
  to the numbers 50 and 1.
\<close>

record listQuery =
  q_query :: "string option"
  q_universityCode :: "string option"
  q_courseLevel :: "string option"
  q_disciplineMajor :: "string option"
  q_attendanceType :: "string option"
  q_minTuition :: "string option"
  q_maxTuition :: "string option"
  q_limit :: "string option"
  q_page :: "string option"

definition limitParam :: "listQuery \<Rightarrow> jsval" where
  "limitParam q = (case q_limit q of None \<Rightarrow> Num (Fin 50) | Some s \<Rightarrow> Str s)"

definition pageParam :: "listQuery \<Rightarrow> jsval" where
  "pageParam q = (case q_page q of None \<Rightarrow> Num (Fin 1) | Some s \<Rightarrow> Str s)"

definition listCacheKey :: "listQuery \<Rightarrow> jsval option list" where
  "listCacheKey q =
     [map_option Str (q_query q), map_option Str (q_universityCode q),
      map_option Str (q_courseLevel q), map_option Str (q_disciplineMajor q),
      map_option Str (q_attendanceType q), map_option Str (q_minTuition q),
      map_option Str (q_maxTuition q), Some (limitParam q), Some (pageParam q)]"

text \<open>
  The filter handed to the collection: a parameter is used when it is truthy; the
  tuition bounds are used when the parameter is present (\<open>!== undefined\<close>).
\<close>

record searchQuery =
  sq_text :: "string option"
  sq_universityCode :: "string option"
  sq_courseLevel :: "string option"
  sq_disciplineMajor :: "string option"
  sq_attendanceType :: "string option"
  sq_tuitionGte :: "jsnum option"
  sq_tuitionLte :: "jsnum option"

definition whenTruthy :: "string option \<Rightarrow> string option" where
  "whenTruthy v = (case v of None \<Rightarrow> None | Some s \<Rightarrow> if s \<noteq> [] then Some s else None)"

definition buildSearchQuery :: "listQuery \<Rightarrow> searchQuery" where
  "buildSearchQuery q =
     \<lparr>sq_text = whenTruthy (q_query q),
      sq_universityCode = whenTruthy (q_universityCode q),
      sq_courseLevel = whenTruthy (q_courseLevel q),
      sq_disciplineMajor = whenTruthy (q_disciplineMajor q),
      sq_attendanceType = whenTruthy (q_attendanceType q),
      sq_tuitionGte = map_option parseFloat (q_minTuition q),
      sq_tuitionLte = map_option parseFloat (q_maxTuition q)\<rparr>"

text \<open>
  Arithmetic on the results of \<open>parseInt\<close>, which are finite or \<open>NaN\<close>, and on the
  total, which is finite: \<open>NaN\<close> propagates, and a division by zero gives \<open>NaN\<close> or an
  infinity.
\<close>

fun jsMinus :: "jsnum \<Rightarrow> jsnum \<Rightarrow> jsnum" where
  "jsMinus (Fin a) (Fin b) = Fin (a - b)"
| "jsMinus _ _ = NaN"

fun jsTimes :: "jsnum \<Rightarrow> jsnum \<Rightarrow> jsnum" where
  "jsTimes (Fin a) (Fin b) = Fin (a * b)"
| "jsTimes _ _ = NaN"

fun jsDivide :: "jsnum \<Rightarrow> jsnum \<Rightarrow> jsnum" where
  "jsDivide (Fin a) (Fin b) =
     (if b \<noteq> 0 then Fin (a / b) else if a = 0 then NaN else if 0 < a then PosInf else NegInf)"
| "jsDivide _ _ = NaN"

fun jsCeil :: "jsnum \<Rightarrow> jsnum" where
  "jsCeil (Fin a) = Fin (of_int \<lceil>a\<rceil>)"
| "jsCeil n = n"

definition pageLimit :: "listQuery \<Rightarrow> jsnum" where
  "pageLimit q = parseIntOf (Some (limitParam q))"

definition pageNumber :: "listQuery \<Rightarrow> jsnum" where
  "pageNumber q = parseIntOf (Some (pageParam q))"

definition pageSkip :: "listQuery \<Rightarrow> jsnum" where
  "pageSkip q = jsTimes (jsMinus (pageNumber q) (Fin 1)) (pageLimit q)"

text \<open>
  The collection as the handler uses it: for a filter, a number of documents to skip and
  a limit, the page of documents (sorted by text score when the filter has a text search,
  by course name otherwise) and the number of documents matching the filter, or the
  message of the error one of the two calls throws.
\<close>

type_synonym repository = "searchQuery \<Rightarrow> jsnum \<Rightarrow> jsnum \<Rightarrow> string + jsobj list \<times> nat"

record pageInfo =
  pg_page :: jsnum
  pg_limit :: jsnum
  pg_total :: nat
  pg_pages :: jsnum

record listing =
  courses :: "jsobj list"
  pagination :: pageInfo
  fromCache :: bool

datatype 'a response = Json 'a | ServerError string

text \<open>The handler of \<open>GET /api/courses\<close>: the response and the cache after the call.\<close>

definition getCourses ::
  "repository \<Rightarrow> nat \<Rightarrow> listQuery \<Rightarrow> listing redisClient
     \<Rightarrow> listing response \<times> listing redisClient" where
  "getCourses repo now q cache =
     (case getCachedCourses cache now (listCacheKey q) of
        Some cachedData \<Rightarrow> (Json (cachedData\<lparr>fromCache := True\<rparr>), cache)
      | None \<Rightarrow>
          (case repo (buildSearchQuery q) (pageSkip q) (pageLimit q) of
             Inl message \<Rightarrow> (ServerError message, cache)
           | Inr (found, totalCount) \<Rightarrow>
               (let result =
                      \<lparr>courses = found,
                       pagination = \<lparr>pg_page = pageNumber q, pg_limit = pageLimit q,
                                     pg_total = totalCount,
                                     pg_pages = jsCeil (jsDivide (Fin (real totalCount)) (pageLimit q))\<rparr>,
                       fromCache = False\<rparr>
                in (Json result, snd (setCachedCourses cache now (listCacheKey q) result)))))"

text \<open>
  The \<open>limit\<close> rule of \<open>courseSchemas.search\<close>: an integer from 1 to 100. No route
  applies this schema.
\<close>

definition searchSchemaLimit :: "jsnum \<Rightarrow> bool" where
  "searchSchemaLimit n = (case n of Fin r \<Rightarrow> r \<in> \<int> \<and> 1 \<le> r \<and> r \<le> 100 | _ \<Rightarrow> False)"

text \<open>Sample inputs: a collection that answers every query the same way, a request without parameters, an empty cache.\<close>

definition fixedRepository :: "jsobj list \<Rightarrow> nat \<Rightarrow> repository" where
  "fixedRepository found totalCount = (\<lambda>q skip limit. Inr (found, totalCount))"

definition emptyQuery :: listQuery where
  "emptyQuery = \<lparr>q_query = None, q_universityCode = None, q_courseLevel = None,
                 q_disciplineMajor = None, q_attendanceType = None, q_minTuition = None,
                 q_maxTuition = None, q_limit = None, q_page = None\<rparr>"

definition emptyCache :: "bool \<Rightarrow> listing redisClient" where
  "emptyCache up = \<lparr>isConnected = up, store = Map.empty\<rparr>"

definition query101 :: listQuery where
  "query101 = emptyQuery\<lparr>q_limit := Some ''101''\<rparr>"


section \<open>The end of an upload\<close>

text \<open>
  The file system: the paths that exist, and those among them that the process cannot
  remove. \<open>fs.unlinkSync\<close> throws for a path that does not exist or cannot be removed.
\<close>

datatype fsError = ENOENT | EPERM

record fileSystem =
  files :: "string set"
  undeletable :: "string set"

definition unlinkSync :: "fileSystem \<Rightarrow> string \<Rightarrow> fsError + fileSystem" where
  "unlinkSync fs path =
     (if path \<notin> files fs then Inl ENOENT
      else if path \<in> undeletable fs then Inl EPERM
      else Inr (fs\<lparr>files := files fs - {path}\<rparr>))"

text \<open>
  What the handler touches: the course collection, the cache and the file system. The
  callback run at the end of the CSV stream: the row loop, the invalidation of the
  listing cache, the removal of the uploaded file and the response. An exception of
  \<open>unlinkSync\<close> is caught by the outer \<open>catch\<close>, which answers with status 500.
\<close>

datatype uploadResponse = UploadCompleted uploadBody | ProcessingError fsError

record 'v world =
  w_courses :: "jsobj list"
  w_cache :: "'v redisClient"
  w_fs :: fileSystem

definition uploadEnd ::
  "(nat \<Rightarrow> nat) \<Rightarrow> csvRow list \<Rightarrow> string \<Rightarrow> 'v world \<Rightarrow> uploadResponse \<times> 'v world" where
  "uploadEnd clock rows path w =
     (let st = uploadLoop clock (w_courses w) rows;
          cache' = snd (invalidateCourseCache (w_cache w))
      in case unlinkSync (w_fs w) path of
           Inr fs' \<Rightarrow>
             (UploadCompleted (uploadBodyOf st),
              \<lparr>w_courses = collection st, w_cache = cache', w_fs = fs'\<rparr>)
         | Inl e \<Rightarrow>
             (ProcessingError e,
              \<lparr>w_courses = collection st, w_cache = cache', w_fs = w_fs w\<rparr>))"

definition uploadedPath :: string where
  "uploadedPath = ''uploads/courses-1000-data.csv''"

definition sampleWorld :: "bool \<Rightarrow> listing world" where
  "sampleWorld locked =
     \<lparr>w_courses = [], w_cache = emptyCache True,
      w_fs = \<lparr>files = {uploadedPath}, undeletable = (if locked then {uploadedPath} else {})\<rparr>\<rparr>"

section \<open>Mock recommendations do not depend on topics or skill level\<close>

text \<open>
  C10. Two preference inputs that agree on \<open>maxTuition\<close> and \<open>duration\<close> get the same
  list of mock recommendations, in the same order, whatever their topics and skill
  levels are.
\<close>

theorem mock_noninterference:
  assumes "maxTuition p = maxTuition q" and "duration p = duration q"
  shows "recommendations (generateRecommendations p) = recommendations (generateRecommendations q)"
  using assms by (simp add: generateRecommendations_def generateMockRecommendations_def)

theorem mock_noninterference_witness:
  "maxTuition \<lparr>topics = [''AI''], skillLevel = Some ''beginner'', duration = Some ''short'',
               maxTuition = Some 40000\<rparr>
     = maxTuition \<lparr>topics = [''History'', ''Art''], skillLevel = Some ''advanced'',
                  duration = Some ''short'', maxTuition = Some 40000\<rparr>
   \<and> duration \<lparr>topics = [''AI''], skillLevel = Some ''beginner'', duration = Some ''short'',
               maxTuition = Some 40000\<rparr>
     = duration \<lparr>topics = [''History'', ''Art''], skillLevel = Some ''advanced'',
                 duration = Some ''short'', maxTuition = Some 40000\<rparr>
   \<and> recommendations (generateRecommendations
        \<lparr>topics = [''AI''], skillLevel = Some ''beginner'', duration = Some ''short'',
         maxTuition = Some 40000\<rparr>)
     = recommendations (generateRecommendations
        \<lparr>topics = [''History'', ''Art''], skillLevel = Some ''advanced'',
         duration = Some ''short'', maxTuition = Some 40000\<rparr>)"
  using mock_noninterference
    [of "\<lparr>topics = [''AI''], skillLevel = Some ''beginner'', duration = Some ''short'',
          maxTuition = Some 40000\<rparr>"
        "\<lparr>topics = [''History'', ''Art''], skillLevel = Some ''advanced'',
          duration = Some ''short'', maxTuition = Some 40000\<rparr>"]
  by simp

section \<open>Popularity ranking\<close>

lemma obj_Nil [simp]: "obj [] k = None"
  by (simp add: obj_def)

lemma obj_Cons [simp]: "obj ((k', v) # kvs) k = (if k = k' then v else obj kvs k)"
  by (simp add: obj_def)











section \<open>CSV ingestion: the row loop\<close>

lemma obj_weak_cong [cong]: "k = k' \<Longrightarrow> obj kvs k = obj kvs k'"
  by simp


lemma upsertCourse_eq:
  "upsertCourse db d = (if validateCourse d = [] then Inr (storeCourse db d) else Inl (validateCourse d))"
  by (simp add: upsertCourse_def storeCourse_def findOneAndUpdate_def save_def split: option.split)

lemma processRow_valid:
  "rowValid clock (Suc (processedCount st), row) \<Longrightarrow>
   processRow clock st row =
     st\<lparr>collection := storeCourse (collection st) (rowData clock (Suc (processedCount st), row)),
        processedCount := Suc (processedCount st), successCount := Suc (successCount st)\<rparr>"
  by (simp add: processRow_def upsertCourse_eq rowValid_def rowData_def Let_def)

lemma processRow_invalid:
  "\<not> rowValid clock (Suc (processedCount st), row) \<Longrightarrow>
   processRow clock st row =
     st\<lparr>processedCount := Suc (processedCount st),
        errors := errors st @ [rowErrorOf clock (Suc (processedCount st), row)]\<rparr>"
  by (simp add: processRow_def upsertCourse_eq rowValid_def rowData_def rowErrorOf_def Let_def)

lemma processRows_char:
  "processRows clock st rows =
     st\<lparr>collection := foldl storeCourse (collection st)
            (map (rowData clock) (filter (rowValid clock) (enumerate (Suc (processedCount st)) rows))),
        processedCount := processedCount st + length rows,
        successCount := successCount st
            + length (filter (rowValid clock) (enumerate (Suc (processedCount st)) rows)),
        errors := errors st
            @ map (rowErrorOf clock)
                (filter (\<lambda>nr. \<not> rowValid clock nr) (enumerate (Suc (processedCount st)) rows))\<rparr>"
proof (induction rows arbitrary: st)
  case Nil
  show ?case by (simp add: processRows_def)
next
  case (Cons row rows)
  have step: "processRows clock st (row # rows) = processRows clock (processRow clock st row) rows"
    by (simp add: processRows_def)
  show ?case
  proof (cases "rowValid clock (Suc (processedCount st), row)")
    case True
    then show ?thesis
      by (simp add: step Cons.IH processRow_valid)
  next
    case False
    then show ?thesis
      by (simp add: step Cons.IH processRow_invalid)
  qed
qed

lemma storeCourse_Nil: "storeCourse [] d = [d]"
  by (simp add: storeCourse_def findOne_def)

lemma storeCourse_Cons:
  "storeCourse (x # xs) d =
     (if x ''uniqueId'' = d ''uniqueId'' then (x ++ d) # xs else x # storeCourse xs d)"
  by (simp add: storeCourse_def findOne_def split: option.split)

lemma storeCourse_length:
  "length (storeCourse db d) = (if findOne db (d ''uniqueId'') = None then Suc (length db) else length db)"
proof (induction db)
  case Nil
  show ?case by (simp add: storeCourse_Nil findOne_def)
next
  case (Cons x xs)
  then show ?case by (simp add: storeCourse_Cons findOne_def)
qed











lemmas parse_defs = parseInt_def parseFloat_def parseExponent_def scale10_def isWhiteSpace_def
  isDigit_def isHexDigit_def digitsValue_def digitValue_def







lemma uploadLoop_char:
  "uploadLoop clock db0 rows =
     \<lparr>collection = foldl storeCourse db0
        (map (rowData clock) (filter (rowValid clock) (enumerate 1 rows))),
      processedCount = length rows,
      successCount = length (filter (rowValid clock) (enumerate 1 rows)),
      errors = map (rowErrorOf clock) (filter (\<lambda>nr. \<not> rowValid clock nr) (enumerate 1 rows))\<rparr>"
  by (simp add: uploadLoop_def processRows_char)








section \<open>CSV ingestion: the summary\<close>

text \<open>
  C9. In the response of every upload, \<open>totalProcessed\<close> is \<open>successful\<close> plus the
  number of recorded errors, it is the number of rows of the file, and the \<open>errors\<close>
  array holds the first ten recorded errors at most.
\<close>

theorem upload_summary_invariant:
  "totalProcessed (summary (uploadBodyOf (uploadLoop clock db0 rows)))
     = successful (summary (uploadBodyOf (uploadLoop clock db0 rows)))
       + errorCount (summary (uploadBodyOf (uploadLoop clock db0 rows)))
   \<and> totalProcessed (summary (uploadBodyOf (uploadLoop clock db0 rows))) = length rows
   \<and> errorCount (summary (uploadBodyOf (uploadLoop clock db0 rows)))
       = length (errors (uploadLoop clock db0 rows))
   \<and> errorList (uploadBodyOf (uploadLoop clock db0 rows)) = take 10 (errors (uploadLoop clock db0 rows))
   \<and> length (errorList (uploadBodyOf (uploadLoop clock db0 rows))) \<le> 10"
proof -
  have "length (filter (rowValid clock) (enumerate 1 rows))
        + length (filter (\<lambda>nr. \<not> rowValid clock nr) (enumerate 1 rows)) = length rows"
    using sum_length_filter_compl [of "rowValid clock" "enumerate 1 rows"] by simp
  then show ?thesis
    by (simp add: uploadBodyOf_def uploadLoop_char)
qed

section \<open>CSV ingestion: ingesting a file twice\<close>













section \<open>CSV ingestion: type coercion\<close>










section \<open>Recommendations: matching courses\<close>









section \<open>The course listing: cache-aside\<close>

lemma getCourses_miss:
  assumes "getCachedCourses cache now (listCacheKey q) = None"
    and "repo (buildSearchQuery q) (pageSkip q) (pageLimit q) = Inr (found, totalCount)"
  shows "getCourses repo now q cache =
           (Json \<lparr>courses = found,
                   pagination = \<lparr>pg_page = pageNumber q, pg_limit = pageLimit q, pg_total = totalCount,
                                 pg_pages = jsCeil (jsDivide (Fin (real totalCount)) (pageLimit q))\<rparr>,
                   fromCache = False\<rparr>,
            snd (setCachedCourses cache now (listCacheKey q)
                  \<lparr>courses = found,
                   pagination = \<lparr>pg_page = pageNumber q, pg_limit = pageLimit q, pg_total = totalCount,
                                 pg_pages = jsCeil (jsDivide (Fin (real totalCount)) (pageLimit q))\<rparr>,
                   fromCache = False\<rparr>))"
  using assms by (simp add: getCourses_def Let_def)

lemma getCourses_hit:
  assumes "getCachedCourses cache now (listCacheKey q) = Some cachedData"
  shows "getCourses repo now q cache = (Json (cachedData\<lparr>fromCache := True\<rparr>), cache)"
  using assms by (simp add: getCourses_def)

lemma set_then_get:
  assumes "isConnected cache" and "now \<le> now'" and "now' < now + 1800"
  shows "getCachedCourses (snd (setCachedCourses cache now key v)) now' key = Some v"
  using assms by (simp add: getCachedCourses_def setCachedCourses_def redisGet_def redisSet_def)

text \<open>
  C1, with a connected cache and a query the collection answers. When the cache holds no
  live entry for the parameters, the first call answers with \<open>fromCache = false\<close> and
  stores its payload; a second call with the same parameters before the entry expires
  (30 minutes) answers from the cache, whatever the collection holds by then: the same
  payload with \<open>fromCache = true\<close>, and the cache is left as it was.
\<close>

theorem cache_aside_round_trip:
  assumes "isConnected cache"
    and "getCachedCourses cache now (listCacheKey q) = None"
    and "repo (buildSearchQuery q) (pageSkip q) (pageLimit q) = Inr (found, totalCount)"
    and "now \<le> now'" and "now' < now + 1800"
  shows "\<exists>payload cache1.
           getCourses repo now q cache = (Json payload, cache1)
           \<and> fromCache payload = False
           \<and> courses payload = found
           \<and> getCachedCourses cache1 now' (listCacheKey q) = Some payload
           \<and> getCourses repo' now' q cache1 = (Json (payload\<lparr>fromCache := True\<rparr>), cache1)"
proof -
  let ?payload = "\<lparr>courses = found,
                   pagination = \<lparr>pg_page = pageNumber q, pg_limit = pageLimit q, pg_total = totalCount,
                                 pg_pages = jsCeil (jsDivide (Fin (real totalCount)) (pageLimit q))\<rparr>,
                   fromCache = False\<rparr>"
  let ?cache1 = "snd (setCachedCourses cache now (listCacheKey q) ?payload)"
  have first: "getCourses repo now q cache = (Json ?payload, ?cache1)"
    using assms(2,3) by (rule getCourses_miss)
  have stored: "getCachedCourses ?cache1 now' (listCacheKey q) = Some ?payload"
    using assms(1,4,5) by (rule set_then_get)
  have second: "getCourses repo' now' q ?cache1 = (Json (?payload\<lparr>fromCache := True\<rparr>), ?cache1)"
    using stored by (rule getCourses_hit)
  show ?thesis
    using first stored second by (intro exI [of _ ?payload] exI [of _ ?cache1]) simp
qed

lemma emptyQuery_paging:
  "pageLimit emptyQuery = Fin 50" "pageNumber emptyQuery = Fin 1" "pageSkip emptyQuery = Fin 0"
  by (simp_all add: pageLimit_def pageNumber_def pageSkip_def limitParam_def pageParam_def emptyQuery_def)

lemma one_fiftieth: "\<lceil>(1::real) / 50\<rceil> = 1"
  by (rule ceiling_unique) simp_all

lemma emptyCache_connected: "isConnected (emptyCache up) = up"
  by (simp add: emptyCache_def)

theorem cache_aside_round_trip_witness:
  "isConnected (emptyCache True)
   \<and> getCachedCourses (emptyCache True) 0 (listCacheKey emptyQuery) = None
   \<and> fixedRepository [courseA] 1 (buildSearchQuery emptyQuery) (pageSkip emptyQuery) (pageLimit emptyQuery)
       = Inr ([courseA], 1)
   \<and> (\<exists>payload cache1.
         getCourses (fixedRepository [courseA] 1) 0 emptyQuery (emptyCache True) = (Json payload, cache1)
         \<and> fromCache payload = False
         \<and> courses payload = [courseA]
         \<and> getCachedCourses cache1 10 (listCacheKey emptyQuery) = Some payload
         \<and> getCourses (fixedRepository [] 0) 10 emptyQuery cache1
             = (Json (payload\<lparr>fromCache := True\<rparr>), cache1))"
proof -
  have h1: "isConnected (emptyCache True)"
    by (simp add: emptyCache_def)
  have h2: "getCachedCourses (emptyCache True) 0 (listCacheKey emptyQuery) = None"
    by (simp add: emptyCache_def getCachedCourses_def redisGet_def)
  have h3: "fixedRepository [courseA] 1 (buildSearchQuery emptyQuery) (pageSkip emptyQuery)
              (pageLimit emptyQuery) = Inr ([courseA], 1)"
    by (simp add: fixedRepository_def)
  have h4: "(0::nat) \<le> 10" and h5: "(10::nat) < 0 + 1800"
    by simp_all
  show ?thesis
    using cache_aside_round_trip
        [where cache = "emptyCache True" and now = 0 and q = emptyQuery
           and repo = "fixedRepository [courseA] 1" and found = "[courseA]" and totalCount = 1
           and now' = 10 and repo' = "fixedRepository [] 0", OF h1 h2 h3 h4 h5]
      h1 h2 h3
    by simp
qed

text \<open>
  Without a connection to the cache nothing is stored: the second call with the same
  parameters answers \<open>fromCache = false\<close> again.
\<close>

theorem cache_aside_round_trip_counterexample:
  "getCachedCourses (emptyCache False) 0 (listCacheKey emptyQuery) = None
   \<and> getCourses (fixedRepository [courseA] 1) 0 emptyQuery (emptyCache False)
       = (Json \<lparr>courses = [courseA],
                pagination = \<lparr>pg_page = Fin 1, pg_limit = Fin 50, pg_total = 1, pg_pages = Fin 1\<rparr>,
                fromCache = False\<rparr>,
          emptyCache False)
   \<and> getCourses (fixedRepository [courseA] 1) 0 emptyQuery
        (snd (getCourses (fixedRepository [courseA] 1) 0 emptyQuery (emptyCache False)))
       = (Json \<lparr>courses = [courseA],
                pagination = \<lparr>pg_page = Fin 1, pg_limit = Fin 50, pg_total = 1, pg_pages = Fin 1\<rparr>,
                fromCache = False\<rparr>,
          emptyCache False)"
proof -
  have miss: "getCachedCourses (emptyCache False) 0 (listCacheKey emptyQuery) = None"
    by (simp add: emptyCache_def getCachedCourses_def redisGet_def)
  have call: "getCourses (fixedRepository [courseA] 1) 0 emptyQuery (emptyCache False)
       = (Json \<lparr>courses = [courseA],
                pagination = \<lparr>pg_page = Fin 1, pg_limit = Fin 50, pg_total = 1, pg_pages = Fin 1\<rparr>,
                fromCache = False\<rparr>,
          emptyCache False)"
    by (simp add: getCourses_def miss fixedRepository_def emptyQuery_paging
        setCachedCourses_def redisSet_def emptyCache_connected one_fiftieth)
  show ?thesis
    using miss call by simp
qed


section \<open>The course listing: page size\<close>

text \<open>
  C7. The skip offset is \<open>(page - 1) * limit\<close>, but the page size is not bounded: the
  request \<open>limit=101\<close>, which the search schema rejects, is served with limit 101.
\<close>

theorem limit_101_served:
  "pageLimit query101 = Fin 101
   \<and> pageSkip query101 = Fin 0
   \<and> \<not> searchSchemaLimit (pageLimit query101)
   \<and> fst (getCourses (fixedRepository [] 0) 0 query101 (emptyCache True))
       = Json \<lparr>courses = [],
               pagination = \<lparr>pg_page = Fin 1, pg_limit = Fin 101, pg_total = 0, pg_pages = Fin 0\<rparr>,
               fromCache = False\<rparr>"
proof -
  have l: "pageLimit query101 = Fin 101"
    by (simp add: pageLimit_def limitParam_def query101_def emptyQuery_def parse_defs)
  have p: "pageNumber query101 = Fin 1"
    by (simp add: pageNumber_def pageParam_def query101_def emptyQuery_def)
  have s: "pageSkip query101 = Fin 0"
    by (simp add: pageSkip_def l p)
  have n: "\<not> searchSchemaLimit (Fin 101)"
    by (simp add: searchSchemaLimit_def)
  have miss: "getCachedCourses (emptyCache True) 0 (listCacheKey query101) = None"
    by (simp add: emptyCache_def getCachedCourses_def redisGet_def)
  have "fst (getCourses (fixedRepository [] 0) 0 query101 (emptyCache True))
       = Json \<lparr>courses = [],
               pagination = \<lparr>pg_page = Fin 1, pg_limit = Fin 101, pg_total = 0, pg_pages = Fin 0\<rparr>,
               fromCache = False\<rparr>"
    by (simp add: getCourses_def miss fixedRepository_def l p Let_def)
  then show ?thesis
    by (simp add: l s n)
qed


section \<open>The end of an upload: the uploaded file\<close>

text \<open>
  C8, as the code behaves. Whatever happens to the rows, the uploaded file is removed
  after the loop and the response is the summary, provided the file can be removed. When
  its removal throws, the response is the error and the file system is left unchanged:
  the \<open>catch\<close> block removes nothing.
\<close>

theorem upload_file_cleanup:
  "(path \<in> files (w_fs w) \<and> path \<notin> undeletable (w_fs w) \<longrightarrow>
      fst (uploadEnd clock rows path w) = UploadCompleted (uploadBodyOf (uploadLoop clock (w_courses w) rows))
      \<and> path \<notin> files (w_fs (snd (uploadEnd clock rows path w))))
   \<and> (\<forall>e. unlinkSync (w_fs w) path = Inl e \<longrightarrow>
        fst (uploadEnd clock rows path w) = ProcessingError e
        \<and> w_fs (snd (uploadEnd clock rows path w)) = w_fs w)"
  by (simp add: uploadEnd_def unlinkSync_def Let_def)

theorem upload_file_cleanup_witness:
  "uploadedPath \<in> files (w_fs (sampleWorld False))
   \<and> uploadedPath \<notin> undeletable (w_fs (sampleWorld False))
   \<and> uploadedPath \<notin> files (w_fs (snd (uploadEnd clockA fiveRows uploadedPath (sampleWorld False))))
   \<and> unlinkSync (w_fs (sampleWorld True)) uploadedPath = Inl EPERM
   \<and> fst (uploadEnd clockA fiveRows uploadedPath (sampleWorld True)) = ProcessingError EPERM"
  using upload_file_cleanup [of uploadedPath "sampleWorld False" clockA fiveRows]
    upload_file_cleanup [of uploadedPath "sampleWorld True" clockA fiveRows]
  by (simp add: sampleWorld_def unlinkSync_def)

text \<open>
  An uploaded file that cannot be removed: the request ends on the failure path and the
  file is still there.
\<close>

theorem upload_file_cleanup_counterexample:
  "fst (uploadEnd clockA fiveRows uploadedPath (sampleWorld True)) = ProcessingError EPERM
   \<and> uploadedPath \<in> files (w_fs (snd (uploadEnd clockA fiveRows uploadedPath (sampleWorld True))))"
  by (simp add: uploadEnd_def unlinkSync_def Let_def sampleWorld_def)


end
